theory Spec2Isabelle
  imports Main
begin

section \<open>The blind-signature issuer: data model\<close>

text \<open>
  The server of \<^verbatim>\<open>backend/app/app.py\<close> is five Flask handlers over two tables and
  a crypto library. Python values are dynamically typed, so one type \<open>'v\<close> stands for
  every opaque value that crosses a boundary: what the client sends (constraint hashes,
  blinded messages, proofs) and what \<^verbatim>\<open>libblindr\<close> returns (keys, session values,
  signatures). A request body is the JSON object \<^verbatim>\<open>request.json\<close>, a dictionary;
  \<^verbatim>\<open>data.get(k)\<close> is the lookup \<open>data k\<close>, with \<open>None\<close> for a missing field,
  as in Python.
\<close>

type_synonym 'v request = "string \<rightharpoonup> 'v"

text \<open>
  What \<^verbatim>\<open>jsonify(**kwargs)\<close> is given: the keyword name and its value, which is a
  Python boolean (\<^verbatim>\<open>success=True\<close>), a string literal (\<^verbatim>\<open>error="..."\<close>) or an
  opaque value.
\<close>

datatype 'v json = JBool bool | JString string | JValue 'v

record 'v response =
  body :: "(string \<times> 'v json) list"
  status :: nat

definition jsonify :: "(string \<times> 'v json) list \<Rightarrow> 'v response" where
  \<comment> \<open>A view that returns \<^verbatim>\<open>jsonify(...)\<close> alone answers with status 200.\<close>
  "jsonify kwargs = \<lparr>body = kwargs, status = 200\<rparr>"

definition with_status :: "'v response \<Rightarrow> nat \<Rightarrow> 'v response" where
  \<comment> \<open>The tuple \<^verbatim>\<open>(jsonify(...), code)\<close> that a view returns to set the status.\<close>
  "with_status r code = r\<lparr>status := code\<rparr>"

subsection \<open>The two tables\<close>

text \<open>
  Modelled from the spec: the classes \<^verbatim>\<open>PermanentStorage\<close> and \<^verbatim>\<open>TemporaryStorage\<close>
  of \<^verbatim>\<open>models\<close>, which \<^verbatim>\<open>app.py\<close> imports. The spec's PermanentEntry has the fields
  \<^verbatim>\<open>constraint_hash\<close>, \<^verbatim>\<open>private_key\<close>, \<^verbatim>\<open>public_key\<close> and its TemporaryEntry
  \<^verbatim>\<open>constraint_hash\<close>, \<^verbatim>\<open>private_value\<close>, \<^verbatim>\<open>public_value\<close>; each table holds at
  most one entry per constraint hash. The hash is the key of the map below, so the
  records keep the other two fields.
\<close>

record 'v PermanentStorage =
  private_key :: 'v
  public_key :: 'v

record 'v TemporaryStorage =
  private_value :: 'v
  public_value :: 'v

text \<open>
  The calls that the handlers make to \<^verbatim>\<open>libblindr\<close>, in the order they are made.
  The log is not a variable of the program: it records the program's effect on the
  crypto library, so that "the generator is not invoked" can be stated.
\<close>

datatype engine_call =
  Call_server_generate_keypair
  | Call_server_generate_session
  | Call_verify_message_fits_constraint
  | Call_server_sign

text \<open>
  The state of the server: both tables, the state \<open>'g\<close> of the randomness that the two
  generators of the crypto library draw from, and the log of calls to the library.
  A key of a table is whatever \<^verbatim>\<open>data.get('constraint_hash')\<close> returned, so \<open>None\<close>
  (field missing) is a key like any other.
\<close>

record ('v, 'g) server =
  permanent :: "'v option \<rightharpoonup> 'v PermanentStorage"
  temporary :: "'v option \<rightharpoonup> 'v TemporaryStorage"
  entropy :: 'g
  engine_log :: "engine_call list"

text \<open>
  Modelled from the spec: the six functions of \<^verbatim>\<open>db_methods\<close>, which \<^verbatim>\<open>app.py\<close>
  imports. The spec gives the persistence interface, for both kinds of entry, as
  \<^verbatim>\<open>store(constraint_hash, secret, public)\<close>,
  \<^verbatim>\<open>find(constraint_hash) -> Option<Entry>\<close> (a read-only lookup with no side effects)
  and \<^verbatim>\<open>delete(constraint_hash) -> bool\<close> (removes the entry if present, returns
  whether something was removed; deleting a missing session is success, not an error),
  over a mapping from constraint hash to entry; deleting a key does not cascade to the
  session table.
\<close>

definition find_permanent ::
  "('v, 'g) server \<Rightarrow> 'v option \<Rightarrow> 'v PermanentStorage option" where
  "find_permanent s constraint_hash = permanent s constraint_hash"

definition find_temporary ::
  "('v, 'g) server \<Rightarrow> 'v option \<Rightarrow> 'v TemporaryStorage option" where
  "find_temporary s constraint_hash = temporary s constraint_hash"

definition store_permanent ::
  "'v option \<Rightarrow> 'v \<Rightarrow> 'v \<Rightarrow> ('v, 'g) server \<Rightarrow> ('v, 'g) server" where
  "store_permanent constraint_hash priv pub s =
     s\<lparr>permanent := (permanent s)(constraint_hash \<mapsto>
          \<lparr>private_key = priv, public_key = pub\<rparr>)\<rparr>"

definition store_temporary ::
  "'v option \<Rightarrow> 'v \<Rightarrow> 'v \<Rightarrow> ('v, 'g) server \<Rightarrow> ('v, 'g) server" where
  "store_temporary constraint_hash priv pub s =
     s\<lparr>temporary := (temporary s)(constraint_hash \<mapsto>
          \<lparr>private_value = priv, public_value = pub\<rparr>)\<rparr>"

definition delete_permanent ::
  "'v option \<Rightarrow> ('v, 'g) server \<Rightarrow> bool \<times> ('v, 'g) server" where
  "delete_permanent constraint_hash s =
     (permanent s constraint_hash \<noteq> None,
      s\<lparr>permanent := (permanent s)(constraint_hash := None)\<rparr>)"

definition delete_temporary ::
  "'v option \<Rightarrow> ('v, 'g) server \<Rightarrow> bool \<times> ('v, 'g) server" where
  "delete_temporary constraint_hash s =
     (temporary s constraint_hash \<noteq> None,
      s\<lparr>temporary := (temporary s)(constraint_hash := None)\<rparr>)"

subsection \<open>The crypto library\<close>

text \<open>
  The four functions that \<^verbatim>\<open>app.py\<close> imports from \<^verbatim>\<open>libblindr\<close> are parameters of
  the model. The two generators take no argument and return a fresh pair, so they read
  and advance the randomness; signing and verification are functions of their
  arguments. All four are taken to return: a call that raises ends the request outside
  the handler's own control flow.
\<close>

record ('v, 'g) crypto_engine =
  server_generate_keypair :: "'g \<Rightarrow> ('v \<times> 'v) \<times> 'g"
  server_generate_session :: "'g \<Rightarrow> ('v \<times> 'v) \<times> 'g"
  server_sign :: "'v \<Rightarrow> 'v \<Rightarrow> 'v option \<Rightarrow> 'v"
  verify_message_fits_constraint :: "'v option \<Rightarrow> 'v option \<Rightarrow> 'v option \<Rightarrow> bool"

definition logged :: "engine_call \<Rightarrow> ('v, 'g) server \<Rightarrow> ('v, 'g) server" where
  "logged c s = s\<lparr>engine_log := engine_log s @ [c]\<rparr>"

definition call_generate_keypair ::
  "('v, 'g) crypto_engine \<Rightarrow> ('v, 'g) server \<Rightarrow> ('v \<times> 'v) \<times> ('v, 'g) server" where
  "call_generate_keypair ce s =
     (case server_generate_keypair ce (entropy s) of
        (pair, g) \<Rightarrow> (pair, logged Call_server_generate_keypair (s\<lparr>entropy := g\<rparr>)))"

definition call_generate_session ::
  "('v, 'g) crypto_engine \<Rightarrow> ('v, 'g) server \<Rightarrow> ('v \<times> 'v) \<times> ('v, 'g) server" where
  "call_generate_session ce s =
     (case server_generate_session ce (entropy s) of
        (pair, g) \<Rightarrow> (pair, logged Call_server_generate_session (s\<lparr>entropy := g\<rparr>)))"

definition call_verify ::
  "('v, 'g) crypto_engine \<Rightarrow> 'v option \<Rightarrow> 'v option \<Rightarrow> 'v option \<Rightarrow>
   ('v, 'g) server \<Rightarrow> bool \<times> ('v, 'g) server" where
  "call_verify ce proof_arg blinded_message constraint_hash s =
     (verify_message_fits_constraint ce proof_arg blinded_message constraint_hash,
      logged Call_verify_message_fits_constraint s)"

definition call_sign ::
  "('v, 'g) crypto_engine \<Rightarrow> 'v \<Rightarrow> 'v \<Rightarrow> 'v option \<Rightarrow>
   ('v, 'g) server \<Rightarrow> 'v \<times> ('v, 'g) server" where
  "call_sign ce priv_key priv_value blinded_message s =
     (server_sign ce priv_key priv_value blinded_message, logged Call_server_sign s)"

section \<open>The five handlers\<close>

text \<open>
  Each handler takes the request body and the state and returns the response and the
  state after it. An entry is an instance of a model class, which Python's \<^verbatim>\<open>if\<close>
  takes as true, and \<^verbatim>\<open>None\<close> as false: so \<^verbatim>\<open>if permanent_entry:\<close> and
  \<^verbatim>\<open>if temp_entry:\<close> are the \<open>Some\<close> branch of the lookup.
\<close>

definition generate_keypair ::
  "('v, 'g) crypto_engine \<Rightarrow> 'v request \<Rightarrow> ('v, 'g) server \<Rightarrow>
   'v response \<times> ('v, 'g) server" where
  "generate_keypair ce data s =
     (let constraint_hash = data ''constraint_hash'' in
      case find_permanent s constraint_hash of
        Some permanent_entry \<Rightarrow>
          (jsonify [(''public_key'', JValue (public_key permanent_entry))], s)
      | None \<Rightarrow>
          (case call_generate_keypair ce s of
             ((priv, pub), s1) \<Rightarrow>
               (jsonify [(''public_key'', JValue pub)],
                store_permanent constraint_hash priv pub s1)))"

definition create_sign_session ::
  "('v, 'g) crypto_engine \<Rightarrow> 'v request \<Rightarrow> ('v, 'g) server \<Rightarrow>
   'v response \<times> ('v, 'g) server" where
  "create_sign_session ce data s =
     (let constraint_hash = data ''constraint_hash'' in
      if find_permanent s constraint_hash = None
      then (with_status (jsonify [(''error'', JString ''Constraint hash not found'')]) 404, s)
      else
        case find_temporary s constraint_hash of
          Some temp_entry \<Rightarrow>
            (jsonify [(''public_value'', JValue (public_value temp_entry))], s)
        | None \<Rightarrow>
            (case call_generate_session ce s of
               ((priv, pub), s1) \<Rightarrow>
                 (jsonify [(''public_value'', JValue pub)],
                  store_temporary constraint_hash priv pub s1)))"

definition close_sign_session ::
  "('v, 'g) crypto_engine \<Rightarrow> 'v request \<Rightarrow> ('v, 'g) server \<Rightarrow>
   'v response \<times> ('v, 'g) server" where
  "close_sign_session ce data s =
     (let constraint_hash = data ''constraint_hash'' in
      (jsonify [(''success'', JBool True)], snd (delete_temporary constraint_hash s)))"

definition blind_sign ::
  "('v, 'g) crypto_engine \<Rightarrow> 'v request \<Rightarrow> ('v, 'g) server \<Rightarrow>
   'v response \<times> ('v, 'g) server" where
  "blind_sign ce data s =
     (let blinded_message = data ''blinded_message'';
          constraint_hash = data ''constraint_hash'';
          proof_arg = data ''proof''
      in
      case find_temporary s constraint_hash of
        None \<Rightarrow> (with_status (jsonify [(''error'', JString ''Session not found'')]) 404, s)
      | Some temporary_entry \<Rightarrow>
          (case find_permanent s constraint_hash of
             None \<Rightarrow>
               (with_status (jsonify [(''error'', JString ''Constraint hash not found'')]) 404, s)
           | Some permanent_entry \<Rightarrow>
               (case call_verify ce proof_arg blinded_message constraint_hash s of
                  (is_valid, s1) \<Rightarrow>
                    if \<not> is_valid
                    then (with_status (jsonify [(''error'', JString ''Verification failed'')]) 400, s1)
                    else
                      (case call_sign ce (private_key permanent_entry)
                              (private_value temporary_entry) blinded_message s1 of
                         (blinded_signature, s2) \<Rightarrow>
                           (jsonify [(''blinded_signature'', JValue blinded_signature)], s2)))))"

definition delete_key ::
  "('v, 'g) crypto_engine \<Rightarrow> 'v request \<Rightarrow> ('v, 'g) server \<Rightarrow>
   'v response \<times> ('v, 'g) server" where
  "delete_key ce data s =
     (let constraint_hash = data ''constraint_hash'' in
      if find_permanent s constraint_hash = None
      then (with_status (jsonify [(''error'', JString ''Constraint hash not found'')]) 404, s)
      else (jsonify [(''success'', JBool True)], snd (delete_permanent constraint_hash s)))"

text \<open>The routes of the application, and the handler that each one is bound to.\<close>

datatype route =
  POST_generate_keypair
  | POST_create_sign_session
  | POST_close_sign_session
  | POST_blind_sign
  | DELETE_delete_key

fun app ::
  "('v, 'g) crypto_engine \<Rightarrow> route \<Rightarrow> 'v request \<Rightarrow> ('v, 'g) server \<Rightarrow>
   'v response \<times> ('v, 'g) server" where
  "app ce POST_generate_keypair = generate_keypair ce"
| "app ce POST_create_sign_session = create_sign_session ce"
| "app ce POST_close_sign_session = close_sign_session ce"
| "app ce POST_blind_sign = blind_sign ce"
| "app ce DELETE_delete_key = delete_key ce"

subsection \<open>A small instance for evaluation\<close>

text \<open>
  A crypto library over natural numbers, for running the handlers on concrete requests:
  the generators count upwards, the signature is \<open>k + r * c\<close> (the shape of a Schnorr
  response), and a proof is accepted when it repeats the constraint hash.
\<close>

definition demo_engine :: "(nat, nat) crypto_engine" where
  "demo_engine =
     \<lparr>server_generate_keypair = (\<lambda>g. ((2 * g, 2 * g + 1), Suc g)),
      server_generate_session = (\<lambda>g. ((2 * g, 2 * g + 1), Suc g)),
      server_sign = (\<lambda>k r m. k + r * (case m of None \<Rightarrow> 0 | Some c \<Rightarrow> c)),
      verify_message_fits_constraint = (\<lambda>p m h. p = h)\<rparr>"

definition demo_server :: "(nat, nat) server" where
  \<comment> \<open>A key and a session for the constraint hash 7.\<close>
  "demo_server =
     \<lparr>permanent = [Some 7 \<mapsto> \<lparr>private_key = 10, public_key = 11\<rparr>],
      temporary = [Some 7 \<mapsto> \<lparr>private_value = 20, public_value = 21\<rparr>],
      entropy = 3, engine_log = []\<rparr>"

definition demo_request :: "nat request" where
  "demo_request = [''constraint_hash'' \<mapsto> 7, ''blinded_message'' \<mapsto> 5, ''proof'' \<mapsto> 7]"

definition empty_server :: "(nat, nat) server" where
  \<comment> \<open>No key and no session.\<close>
  "empty_server = \<lparr>permanent = Map.empty, temporary = Map.empty, entropy = 3, engine_log = []\<rparr>"

definition key_only_server :: "(nat, nat) server" where
  \<comment> \<open>The key of \<open>demo_server\<close> without its session.\<close>
  "key_only_server = demo_server\<lparr>temporary := Map.empty\<rparr>"

definition session_only_server :: "(nat, nat) server" where
  \<comment> \<open>The session of \<open>demo_server\<close> without its key, as delete-key leaves it.\<close>
  "session_only_server = demo_server\<lparr>permanent := Map.empty\<rparr>"

definition other_secrets_server :: "(nat, nat) server" where
  \<comment> \<open>\<open>demo_server\<close> with another private key and another private value.\<close>
  "other_secrets_server =
     \<lparr>permanent = [Some 7 \<mapsto> \<lparr>private_key = 99, public_key = 11\<rparr>],
      temporary = [Some 7 \<mapsto> \<lparr>private_value = 77, public_value = 21\<rparr>],
      entropy = 3, engine_log = []\<rparr>"

definition second_request :: "nat request" where
  \<comment> \<open>Another blinded message for the same constraint hash.\<close>
  "second_request = [''constraint_hash'' \<mapsto> 7, ''blinded_message'' \<mapsto> 9, ''proof'' \<mapsto> 7]"

definition bad_proof_request :: "nat request" where
  \<comment> \<open>\<open>demo_request\<close> with a proof that \<open>demo_engine\<close> rejects.\<close>
  "bad_proof_request = demo_request(''proof'' \<mapsto> 8)"

subsection \<open>What a client may see\<close>

text \<open>
  The part of the state that is not secret: the public key of every PermanentEntry, the
  public value of every TemporaryEntry, and the randomness that later keys will be drawn
  from. Two states with the same public view differ at most in the private keys and
  private values that they store.
\<close>

definition public_view ::
  "('v, 'g) server \<Rightarrow> ('v option \<rightharpoonup> 'v) \<times> ('v option \<rightharpoonup> 'v) \<times> 'g" where
  "public_view s =
     (map_option public_key \<circ> permanent s, map_option public_value \<circ> temporary s, entropy s)"

text \<open>
  The part of the crypto library that is not secret: for each generator, the public half
  of the pair it returns and the randomness it leaves, and the verification predicate.
  Two libraries with the same public part differ at most in the private keys and private
  values that they generate and in how they sign.
\<close>

definition public_engine ::
  "('v, 'g) crypto_engine \<Rightarrow>
   ('g \<Rightarrow> 'v \<times> 'g) \<times> ('g \<Rightarrow> 'v \<times> 'g) \<times> ('v option \<Rightarrow> 'v option \<Rightarrow> 'v option \<Rightarrow> bool)" where
  "public_engine ce =
     ((\<lambda>g. (snd (fst (server_generate_keypair ce g)), snd (server_generate_keypair ce g))),
      (\<lambda>g. (snd (fst (server_generate_session ce g)), snd (server_generate_session ce g))),
      verify_message_fits_constraint ce)"

definition other_engine :: "(nat, nat) crypto_engine" where
  \<comment> \<open>\<open>demo_engine\<close> with other private halves and another signature.\<close>
  "other_engine =
     \<lparr>server_generate_keypair = (\<lambda>g. ((100 + g, 2 * g + 1), Suc g)),
      server_generate_session = (\<lambda>g. ((200 + g, 2 * g + 1), Suc g)),
      server_sign = (\<lambda>k r m. k * r + (case m of None \<Rightarrow> 0 | Some c \<Rightarrow> c)),
      verify_message_fits_constraint = (\<lambda>p m h. p = h)\<rparr>"

text \<open>
  Where a field of a response comes from. For the request \<open>data\<close>, handled in the state
  \<open>s\<close>, a field is a public artifact when it is
  \<^item> \<^verbatim>\<open>public_key\<close>, with the public key stored for the request's constraint hash
    before the request or, when none is stored, the public half of the pair that the
    keypair generator returns;
  \<^item> \<^verbatim>\<open>public_value\<close>, for a constraint hash that has a key, with the public value
    stored for it before the request or, when none is stored, the public half of the
    pair that the session generator returns;
  \<^item> \<^verbatim>\<open>success\<close> with \<^verbatim>\<open>True\<close>, or \<^verbatim>\<open>error\<close> with one of the three messages;
  \<^item> \<^verbatim>\<open>blinded_signature\<close>, with what \<^verbatim>\<open>server_sign\<close> returns for the request.
  The private half of a generated pair and the stored private fields are in none of
  these, except as arguments of \<^verbatim>\<open>server_sign\<close>.
\<close>

definition public_artifact ::
  "('v, 'g) crypto_engine \<Rightarrow> 'v request \<Rightarrow> ('v, 'g) server \<Rightarrow> string \<times> 'v json \<Rightarrow> bool" where
  "public_artifact ce data s field =
     (case field of (k, v) \<Rightarrow>
        (k = ''public_key'' \<and>
           v = JValue (case find_permanent s (data ''constraint_hash'') of
                         Some permanent_entry \<Rightarrow> public_key permanent_entry
                       | None \<Rightarrow> snd (fst (server_generate_keypair ce (entropy s)))))
        \<or> (k = ''public_value'' \<and> find_permanent s (data ''constraint_hash'') \<noteq> None \<and>
           v = JValue (case find_temporary s (data ''constraint_hash'') of
                         Some temp_entry \<Rightarrow> public_value temp_entry
                       | None \<Rightarrow> snd (fst (server_generate_session ce (entropy s)))))
        \<or> (k = ''success'' \<and> v = JBool True)
        \<or> (k = ''error'' \<and>
           v \<in> JString ` {''Session not found'', ''Constraint hash not found'',
                          ''Verification failed''})
        \<or> (k = ''blinded_signature'' \<and>
           (case (find_permanent s (data ''constraint_hash''),
                  find_temporary s (data ''constraint_hash'')) of
              (Some permanent_entry, Some temporary_entry) \<Rightarrow>
                v = JValue (server_sign ce (private_key permanent_entry)
                      (private_value temporary_entry) (data ''blinded_message''))
            | _ \<Rightarrow> False)))"

section \<open>Properties\<close>

lemmas db_defs = find_permanent_def find_temporary_def store_permanent_def store_temporary_def
  delete_permanent_def delete_temporary_def

lemmas engine_defs = logged_def call_generate_keypair_def call_generate_session_def
  call_verify_def call_sign_def

lemmas response_defs = jsonify_def with_status_def

lemmas demo_defs = demo_engine_def other_engine_def demo_server_def demo_request_def
  empty_server_def
  key_only_server_def session_only_server_def other_secrets_server_def second_request_def
  bad_proof_request_def

subsection \<open>The handlers, branch by branch\<close>

text \<open>
  One equation for each path through each handler: what the handler returns and the
  state it leaves, under the conditions that select the path.
\<close>

lemma generate_keypair_existing:
  assumes "find_permanent s (data ''constraint_hash'') = Some permanent_entry"
  shows "generate_keypair ce data s =
           (jsonify [(''public_key'', JValue (public_key permanent_entry))], s)"
  using assms by (simp add: generate_keypair_def)

lemma generate_keypair_fresh:
  assumes "find_permanent s (data ''constraint_hash'') = None"
    and "server_generate_keypair ce (entropy s) = ((priv, pub), g)"
  shows "generate_keypair ce data s =
           (jsonify [(''public_key'', JValue pub)],
            store_permanent (data ''constraint_hash'') priv pub
              (logged Call_server_generate_keypair (s\<lparr>entropy := g\<rparr>)))"
  using assms by (simp add: generate_keypair_def call_generate_keypair_def)

lemma create_sign_session_no_key:
  assumes "find_permanent s (data ''constraint_hash'') = None"
  shows "create_sign_session ce data s =
           (with_status (jsonify [(''error'', JString ''Constraint hash not found'')]) 404, s)"
  using assms by (simp add: create_sign_session_def)

lemma create_sign_session_existing:
  assumes "find_permanent s (data ''constraint_hash'') = Some permanent_entry"
    and "find_temporary s (data ''constraint_hash'') = Some temp_entry"
  shows "create_sign_session ce data s =
           (jsonify [(''public_value'', JValue (public_value temp_entry))], s)"
  using assms by (simp add: create_sign_session_def)

lemma create_sign_session_fresh:
  assumes "find_permanent s (data ''constraint_hash'') = Some permanent_entry"
    and "find_temporary s (data ''constraint_hash'') = None"
    and "server_generate_session ce (entropy s) = ((priv, pub), g)"
  shows "create_sign_session ce data s =
           (jsonify [(''public_value'', JValue pub)],
            store_temporary (data ''constraint_hash'') priv pub
              (logged Call_server_generate_session (s\<lparr>entropy := g\<rparr>)))"
  using assms by (simp add: create_sign_session_def call_generate_session_def)

lemma close_sign_session_eq:
  "close_sign_session ce data s =
     (jsonify [(''success'', JBool True)],
      s\<lparr>temporary := (temporary s)(data ''constraint_hash'' := None)\<rparr>)"
  by (simp add: close_sign_session_def delete_temporary_def)

lemma blind_sign_no_session:
  assumes "find_temporary s (data ''constraint_hash'') = None"
  shows "blind_sign ce data s =
           (with_status (jsonify [(''error'', JString ''Session not found'')]) 404, s)"
  using assms by (simp add: blind_sign_def)

lemma blind_sign_no_key:
  assumes "find_temporary s (data ''constraint_hash'') = Some temporary_entry"
    and "find_permanent s (data ''constraint_hash'') = None"
  shows "blind_sign ce data s =
           (with_status (jsonify [(''error'', JString ''Constraint hash not found'')]) 404, s)"
  using assms by (simp add: blind_sign_def)

lemma blind_sign_rejected:
  assumes "find_temporary s (data ''constraint_hash'') = Some temporary_entry"
    and "find_permanent s (data ''constraint_hash'') = Some permanent_entry"
    and "\<not> verify_message_fits_constraint ce (data ''proof'') (data ''blinded_message'')
             (data ''constraint_hash'')"
  shows "blind_sign ce data s =
           (with_status (jsonify [(''error'', JString ''Verification failed'')]) 400,
            logged Call_verify_message_fits_constraint s)"
  using assms by (simp add: blind_sign_def call_verify_def)

lemma blind_sign_signed:
  assumes "find_temporary s (data ''constraint_hash'') = Some temporary_entry"
    and "find_permanent s (data ''constraint_hash'') = Some permanent_entry"
    and "verify_message_fits_constraint ce (data ''proof'') (data ''blinded_message'')
           (data ''constraint_hash'')"
  shows "blind_sign ce data s =
           (jsonify [(''blinded_signature'',
               JValue (server_sign ce (private_key permanent_entry)
                 (private_value temporary_entry) (data ''blinded_message'')))],
            logged Call_server_sign (logged Call_verify_message_fits_constraint s))"
  using assms by (simp add: blind_sign_def call_verify_def call_sign_def)

lemma delete_key_no_key:
  assumes "find_permanent s (data ''constraint_hash'') = None"
  shows "delete_key ce data s =
           (with_status (jsonify [(''error'', JString ''Constraint hash not found'')]) 404, s)"
  using assms by (simp add: delete_key_def)

lemma delete_key_removed:
  assumes "find_permanent s (data ''constraint_hash'') = Some permanent_entry"
  shows "delete_key ce data s =
           (jsonify [(''success'', JBool True)],
            s\<lparr>permanent := (permanent s)(data ''constraint_hash'' := None)\<rparr>)"
  using assms by (simp add: delete_key_def delete_permanent_def)

subsection \<open>Blind signing\<close>

text \<open>
  C1. In a state where the constraint hash of the request has both a PermanentEntry and
  a TemporaryEntry, and the proof verifies, blind-sign answers 200 with the single field
  \<^verbatim>\<open>blinded_signature\<close>, whose value is \<^verbatim>\<open>server_sign\<close> applied to the private key
  of that PermanentEntry, the private value of that TemporaryEntry and the blinded
  message of the request.
\<close>

theorem blind_sign_returns_signature:
  assumes "find_permanent s (data ''constraint_hash'') = Some permanent_entry"
    and "find_temporary s (data ''constraint_hash'') = Some temporary_entry"
    and "verify_message_fits_constraint ce (data ''proof'') (data ''blinded_message'')
           (data ''constraint_hash'')"
  shows "fst (blind_sign ce data s) =
           \<lparr>body = [(''blinded_signature'',
                     JValue (server_sign ce (private_key permanent_entry)
                       (private_value temporary_entry) (data ''blinded_message'')))],
            status = 200\<rparr>"
  using assms by (simp add: blind_sign_def call_verify_def call_sign_def jsonify_def)

theorem blind_sign_returns_signature_witness:
  "find_permanent demo_server (demo_request ''constraint_hash'')
     = Some \<lparr>private_key = 10, public_key = 11\<rparr>
   \<and> find_temporary demo_server (demo_request ''constraint_hash'')
     = Some \<lparr>private_value = 20, public_value = 21\<rparr>
   \<and> verify_message_fits_constraint demo_engine (demo_request ''proof'')
        (demo_request ''blinded_message'') (demo_request ''constraint_hash'')
   \<and> fst (blind_sign demo_engine demo_request demo_server) =
        \<lparr>body = [(''blinded_signature'', JValue 110)], status = 200\<rparr>"
  using blind_sign_returns_signature [of demo_server demo_request
      "\<lparr>private_key = 10, public_key = 11\<rparr>" "\<lparr>private_value = 20, public_value = 21\<rparr>"
      demo_engine]
  by (simp add: demo_defs db_defs)

text \<open>
  C2. The checks of blind-sign run in the order session, key, proof. With no
  TemporaryEntry for the constraint hash the answer is 404 "Session not found", whether
  or not a PermanentEntry exists and whatever the proof is; with a TemporaryEntry and no
  PermanentEntry it is 404 "Constraint hash not found", whatever the proof is; with both
  and a proof that does not verify it is 400 "Verification failed". In the first two
  cases the state is returned as it was, log included: the proof is not looked at
  before both entries are found.
\<close>

theorem blind_sign_error_precedence:
  "(find_temporary s (data ''constraint_hash'') = None \<longrightarrow>
      blind_sign ce data s =
        (\<lparr>body = [(''error'', JString ''Session not found'')], status = 404\<rparr>, s))
   \<and> (find_temporary s (data ''constraint_hash'') \<noteq> None
        \<and> find_permanent s (data ''constraint_hash'') = None \<longrightarrow>
      blind_sign ce data s =
        (\<lparr>body = [(''error'', JString ''Constraint hash not found'')], status = 404\<rparr>, s))
   \<and> (find_temporary s (data ''constraint_hash'') \<noteq> None
        \<and> find_permanent s (data ''constraint_hash'') \<noteq> None
        \<and> \<not> verify_message_fits_constraint ce (data ''proof'') (data ''blinded_message'')
              (data ''constraint_hash'') \<longrightarrow>
      fst (blind_sign ce data s) =
        \<lparr>body = [(''error'', JString ''Verification failed'')], status = 400\<rparr>)"
  by (auto simp: blind_sign_def call_verify_def response_defs split: option.splits)

theorem blind_sign_error_precedence_witness:
  "find_temporary key_only_server (demo_request ''constraint_hash'') = None
   \<and> find_permanent key_only_server (demo_request ''constraint_hash'') \<noteq> None
   \<and> blind_sign demo_engine demo_request key_only_server =
        (\<lparr>body = [(''error'', JString ''Session not found'')], status = 404\<rparr>, key_only_server)
   \<and> find_temporary session_only_server (bad_proof_request ''constraint_hash'') \<noteq> None
   \<and> find_permanent session_only_server (bad_proof_request ''constraint_hash'') = None
   \<and> blind_sign demo_engine bad_proof_request session_only_server =
        (\<lparr>body = [(''error'', JString ''Constraint hash not found'')], status = 404\<rparr>,
         session_only_server)
   \<and> find_temporary demo_server (bad_proof_request ''constraint_hash'') \<noteq> None
   \<and> find_permanent demo_server (bad_proof_request ''constraint_hash'') \<noteq> None
   \<and> \<not> verify_message_fits_constraint demo_engine (bad_proof_request ''proof'')
          (bad_proof_request ''blinded_message'') (bad_proof_request ''constraint_hash'')
   \<and> fst (blind_sign demo_engine bad_proof_request demo_server) =
        \<lparr>body = [(''error'', JString ''Verification failed'')], status = 400\<rparr>"
  using blind_sign_error_precedence [of key_only_server demo_request demo_engine]
    blind_sign_error_precedence [of session_only_server bad_proof_request demo_engine]
    blind_sign_error_precedence [of demo_server bad_proof_request demo_engine]
  by (simp add: demo_defs db_defs)

text \<open>
  C7. With a PermanentEntry and a TemporaryEntry for the constraint hash and a proof
  that does not verify, blind-sign answers 400 "Verification failed"; the one call it
  makes to the crypto library is the verification, so \<^verbatim>\<open>server_sign\<close> is not
  invoked, and both tables are left as they were.
\<close>

theorem blind_sign_verification_failed:
  assumes "find_permanent s (data ''constraint_hash'') = Some permanent_entry"
    and "find_temporary s (data ''constraint_hash'') = Some temporary_entry"
    and "\<not> verify_message_fits_constraint ce (data ''proof'') (data ''blinded_message'')
             (data ''constraint_hash'')"
  shows "blind_sign ce data s =
           (\<lparr>body = [(''error'', JString ''Verification failed'')], status = 400\<rparr>,
            s\<lparr>engine_log := engine_log s @ [Call_verify_message_fits_constraint]\<rparr>)
         \<and> Call_server_sign \<notin> set (drop (length (engine_log s))
               (engine_log (snd (blind_sign ce data s))))"
  using assms by (simp add: blind_sign_def call_verify_def logged_def response_defs)

theorem blind_sign_verification_failed_witness:
  "find_permanent demo_server (bad_proof_request ''constraint_hash'')
     = Some \<lparr>private_key = 10, public_key = 11\<rparr>
   \<and> find_temporary demo_server (bad_proof_request ''constraint_hash'')
     = Some \<lparr>private_value = 20, public_value = 21\<rparr>
   \<and> \<not> verify_message_fits_constraint demo_engine (bad_proof_request ''proof'')
          (bad_proof_request ''blinded_message'') (bad_proof_request ''constraint_hash'')
   \<and> blind_sign demo_engine bad_proof_request demo_server =
        (\<lparr>body = [(''error'', JString ''Verification failed'')], status = 400\<rparr>,
         demo_server\<lparr>engine_log := [Call_verify_message_fits_constraint]\<rparr>)"
  using blind_sign_verification_failed [of demo_server bad_proof_request
      "\<lparr>private_key = 10, public_key = 11\<rparr>" "\<lparr>private_value = 20, public_value = 21\<rparr>"
      demo_engine]
  by (simp add: demo_defs db_defs)

subsection \<open>Responses and secrets\<close>

lemma public_view_lookups:
  assumes "public_view s = public_view t"
  shows "map_option public_key (find_permanent s h) = map_option public_key (find_permanent t h)"
    and "map_option public_value (find_temporary s h) = map_option public_value (find_temporary t h)"
    and "entropy s = entropy t"
proof -
  from assms have p: "map_option public_key \<circ> permanent s = map_option public_key \<circ> permanent t"
    and q: "map_option public_value \<circ> temporary s = map_option public_value \<circ> temporary t"
    and "entropy s = entropy t"
    by (simp_all add: public_view_def)
  then show "entropy s = entropy t" by simp
  from p show "map_option public_key (find_permanent s h) = map_option public_key (find_permanent t h)"
    unfolding find_permanent_def by (metis comp_apply)
  from q show "map_option public_value (find_temporary s h) = map_option public_value (find_temporary t h)"
    unfolding find_temporary_def by (metis comp_apply)
qed

lemma public_view_updates:
  "public_view (store_permanent h priv pub s) =
     (case public_view s of (P, T, g) \<Rightarrow> (P(h \<mapsto> pub), T, g))"
  "public_view (store_temporary h priv pub s) =
     (case public_view s of (P, T, g) \<Rightarrow> (P, T(h \<mapsto> pub), g))"
  "public_view (s\<lparr>permanent := (permanent s)(h := None)\<rparr>) =
     (case public_view s of (P, T, g) \<Rightarrow> (P(h := None), T, g))"
  "public_view (s\<lparr>temporary := (temporary s)(h := None)\<rparr>) =
     (case public_view s of (P, T, g) \<Rightarrow> (P, T(h := None), g))"
  "public_view (logged c s) = public_view s"
  "public_view (s\<lparr>entropy := g'\<rparr>) = (case public_view s of (P, T, g) \<Rightarrow> (P, T, g'))"
  by (simp_all add: public_view_def store_permanent_def store_temporary_def logged_def
      fun_upd_comp)

lemma response_fields_public:
  "\<forall>field \<in> set (body (fst (app ce route data s))).
     public_artifact ce data s field"
proof (cases route)
  case POST_generate_keypair
  show ?thesis
  proof (cases "find_permanent s (data ''constraint_hash'')")
    case None
    obtain priv pub g where "server_generate_keypair ce (entropy s) = ((priv, pub), g)"
      by (metis prod.exhaust)
    from generate_keypair_fresh [where data = data, OF None this] POST_generate_keypair None
      this
    show ?thesis
      by (simp add: public_artifact_def jsonify_def)
  next
    case (Some e)
    from generate_keypair_existing [where data = data, OF Some] POST_generate_keypair Some show ?thesis
      by (simp add: public_artifact_def jsonify_def)
  qed
next
  case POST_create_sign_session
  show ?thesis
  proof (cases "find_permanent s (data ''constraint_hash'')")
    case None
    from create_sign_session_no_key [where data = data, OF None] POST_create_sign_session show ?thesis
      by (simp add: public_artifact_def response_defs)
  next
    case (Some e)
    show ?thesis
    proof (cases "find_temporary s (data ''constraint_hash'')")
      case None
      obtain priv pub g where "server_generate_session ce (entropy s) = ((priv, pub), g)"
        by (metis prod.exhaust)
      from create_sign_session_fresh [where data = data, OF Some None this]
        POST_create_sign_session Some None this
      show ?thesis
        by (simp add: public_artifact_def jsonify_def)
    next
      case (Some te)
      from create_sign_session_existing [where data = data, OF \<open>find_permanent s (data ''constraint_hash'') = Some e\<close> Some]
        POST_create_sign_session Some \<open>find_permanent s (data ''constraint_hash'') = Some e\<close>
      show ?thesis
        by (simp add: public_artifact_def jsonify_def)
    qed
  qed
next
  case POST_close_sign_session
  then show ?thesis
    by (simp add: close_sign_session_eq public_artifact_def jsonify_def)
next
  case POST_blind_sign
  show ?thesis
  proof (cases "find_temporary s (data ''constraint_hash'')")
    case None
    from blind_sign_no_session [where data = data, OF None] POST_blind_sign show ?thesis
      by (simp add: public_artifact_def response_defs)
  next
    case te: (Some te)
    show ?thesis
    proof (cases "find_permanent s (data ''constraint_hash'')")
      case None
      from blind_sign_no_key [where data = data, OF te None] POST_blind_sign show ?thesis
        by (simp add: public_artifact_def response_defs)
    next
      case pe: (Some pe)
      show ?thesis
      proof (cases "verify_message_fits_constraint ce (data ''proof'')
          (data ''blinded_message'') (data ''constraint_hash'')")
        case True
        from blind_sign_signed [where data = data, OF te pe True] POST_blind_sign te pe show ?thesis
          by (simp add: public_artifact_def jsonify_def)
      next
        case False
        from blind_sign_rejected [where data = data, OF te pe False] POST_blind_sign show ?thesis
          by (simp add: public_artifact_def response_defs)
      qed
    qed
  qed
next
  case DELETE_delete_key
  show ?thesis
  proof (cases "find_permanent s (data ''constraint_hash'')")
    case None
    from delete_key_no_key [where data = data, OF None] DELETE_delete_key show ?thesis
      by (simp add: public_artifact_def response_defs)
  next
    case (Some e)
    from delete_key_removed [where data = data, OF Some] DELETE_delete_key show ?thesis
      by (simp add: public_artifact_def jsonify_def)
  qed
qed

lemma public_engine_lookups:
  assumes "public_engine ce = public_engine ce'"
  shows "snd (fst (server_generate_keypair ce g)) = snd (fst (server_generate_keypair ce' g))"
    and "snd (server_generate_keypair ce g) = snd (server_generate_keypair ce' g)"
    and "snd (fst (server_generate_session ce g)) = snd (fst (server_generate_session ce' g))"
    and "snd (server_generate_session ce g) = snd (server_generate_session ce' g)"
    and "verify_message_fits_constraint ce = verify_message_fits_constraint ce'"
proof -
  from assms
  have k: "(\<lambda>g. (snd (fst (server_generate_keypair ce g)), snd (server_generate_keypair ce g)))
         = (\<lambda>g. (snd (fst (server_generate_keypair ce' g)), snd (server_generate_keypair ce' g)))"
    and n: "(\<lambda>g. (snd (fst (server_generate_session ce g)), snd (server_generate_session ce g)))
         = (\<lambda>g. (snd (fst (server_generate_session ce' g)), snd (server_generate_session ce' g)))"
    and v: "verify_message_fits_constraint ce = verify_message_fits_constraint ce'"
    by (simp_all add: public_engine_def)
  from fun_cong [OF k, of g]
  show "snd (fst (server_generate_keypair ce g)) = snd (fst (server_generate_keypair ce' g))"
    and "snd (server_generate_keypair ce g) = snd (server_generate_keypair ce' g)"
    by simp_all
  from fun_cong [OF n, of g]
  show "snd (fst (server_generate_session ce g)) = snd (fst (server_generate_session ce' g))"
    and "snd (server_generate_session ce g) = snd (server_generate_session ce' g)"
    by simp_all
  from v show "verify_message_fits_constraint ce = verify_message_fits_constraint ce'" .
qed

lemma keypair_public_half:
  assumes "public_engine ce = public_engine ce'"
    and "server_generate_keypair ce g = ((priv, pub), g1)"
  shows "\<exists>priv'. server_generate_keypair ce' g = ((priv', pub), g1)"
  using public_engine_lookups(1,2) [OF assms(1), of g] assms(2)
  by (cases "server_generate_keypair ce' g") auto

lemma session_public_half:
  assumes "public_engine ce = public_engine ce'"
    and "server_generate_session ce g = ((priv, pub), g1)"
  shows "\<exists>priv'. server_generate_session ce' g = ((priv', pub), g1)"
  using public_engine_lookups(3,4) [OF assms(1), of g] assms(2)
  by (cases "server_generate_session ce' g") auto

lemma generate_keypair_public:
  assumes e: "public_engine ce = public_engine ce'" and v: "public_view s = public_view t"
  shows "fst (generate_keypair ce data s) = fst (generate_keypair ce' data t)
       \<and> public_view (snd (generate_keypair ce data s))
           = public_view (snd (generate_keypair ce' data t))"
proof (cases "find_permanent s (data ''constraint_hash'')")
  case None
  with public_view_lookups(1) [OF v, of "data ''constraint_hash''"]
  have t: "find_permanent t (data ''constraint_hash'') = None" by simp
  obtain priv pub g where gen: "server_generate_keypair ce (entropy s) = ((priv, pub), g)"
    by (metis prod.exhaust)
  from keypair_public_half [OF e gen] public_view_lookups(3) [OF v]
  obtain priv' where gen': "server_generate_keypair ce' (entropy t) = ((priv', pub), g)"
    by auto
  show ?thesis
    by (simp add: generate_keypair_fresh [where data = data, OF None gen]
        generate_keypair_fresh [where data = data, OF t gen'] public_view_updates v)
next
  case (Some e)
  with public_view_lookups(1) [OF v, of "data ''constraint_hash''"]
  obtain e' where t: "find_permanent t (data ''constraint_hash'') = Some e'"
    and "public_key e' = public_key e" by (auto simp: map_option_case split: option.splits)
  then show ?thesis
    by (simp add: generate_keypair_existing [where data = data, OF Some]
        generate_keypair_existing [where data = data, OF t] v)
qed

lemma create_sign_session_public:
  assumes e: "public_engine ce = public_engine ce'" and v: "public_view s = public_view t"
  shows "fst (create_sign_session ce data s) = fst (create_sign_session ce' data t)
       \<and> public_view (snd (create_sign_session ce data s))
           = public_view (snd (create_sign_session ce' data t))"
proof (cases "find_permanent s (data ''constraint_hash'')")
  case None
  with public_view_lookups(1) [OF v, of "data ''constraint_hash''"]
  have t: "find_permanent t (data ''constraint_hash'') = None" by simp
  show ?thesis
    by (simp add: create_sign_session_no_key [where data = data, OF None]
        create_sign_session_no_key [where data = data, OF t] v)
next
  case pe: (Some pe)
  with public_view_lookups(1) [OF v, of "data ''constraint_hash''"]
  obtain pe' where pe': "find_permanent t (data ''constraint_hash'') = Some pe'"
    by (auto simp: map_option_case split: option.splits)
  show ?thesis
  proof (cases "find_temporary s (data ''constraint_hash'')")
    case None
    with public_view_lookups(2) [OF v, of "data ''constraint_hash''"]
    have t: "find_temporary t (data ''constraint_hash'') = None" by simp
    obtain priv pub g where gen: "server_generate_session ce (entropy s) = ((priv, pub), g)"
      by (metis prod.exhaust)
    from session_public_half [OF e gen] public_view_lookups(3) [OF v]
    obtain priv' where gen': "server_generate_session ce' (entropy t) = ((priv', pub), g)"
      by auto
    show ?thesis
      by (simp add: create_sign_session_fresh [where data = data, OF pe None gen]
          create_sign_session_fresh [where data = data, OF pe' t gen'] public_view_updates v)
  next
    case (Some te)
    with public_view_lookups(2) [OF v, of "data ''constraint_hash''"]
    obtain te' where t: "find_temporary t (data ''constraint_hash'') = Some te'"
      and "public_value te' = public_value te"
      by (auto simp: map_option_case split: option.splits)
    then show ?thesis
      by (simp add: create_sign_session_existing [where data = data, OF pe Some]
          create_sign_session_existing [where data = data, OF pe' t] v)
  qed
qed

lemma close_sign_session_public:
  assumes "public_view s = public_view t"
  shows "fst (close_sign_session ce data s) = fst (close_sign_session ce' data t)
       \<and> public_view (snd (close_sign_session ce data s))
           = public_view (snd (close_sign_session ce' data t))"
  by (simp add: close_sign_session_eq public_view_updates assms)

lemma delete_key_public:
  assumes v: "public_view s = public_view t"
  shows "fst (delete_key ce data s) = fst (delete_key ce' data t)
       \<and> public_view (snd (delete_key ce data s)) = public_view (snd (delete_key ce' data t))"
proof (cases "find_permanent s (data ''constraint_hash'')")
  case None
  with public_view_lookups(1) [OF v, of "data ''constraint_hash''"]
  have t: "find_permanent t (data ''constraint_hash'') = None" by simp
  show ?thesis
    by (simp add: delete_key_no_key [where data = data, OF None]
        delete_key_no_key [where data = data, OF t] v)
next
  case (Some e)
  with public_view_lookups(1) [OF v, of "data ''constraint_hash''"]
  obtain e' where t: "find_permanent t (data ''constraint_hash'') = Some e'"
    by (auto simp: map_option_case split: option.splits)
  show ?thesis
    by (simp add: delete_key_removed [where data = data, OF Some]
        delete_key_removed [where data = data, OF t] public_view_updates v)
qed

lemma blind_sign_public:
  assumes e: "public_engine ce = public_engine ce'" and v: "public_view s = public_view t"
  shows "(fst (blind_sign ce data s) = fst (blind_sign ce' data t)
          \<or> (\<exists>sig sig'. fst (blind_sign ce data s) = jsonify [(''blinded_signature'', JValue sig)]
               \<and> fst (blind_sign ce' data t) = jsonify [(''blinded_signature'', JValue sig')]))
       \<and> public_view (snd (blind_sign ce data s)) = public_view (snd (blind_sign ce' data t))"
proof (cases "find_temporary s (data ''constraint_hash'')")
  case None
  with public_view_lookups(2) [OF v, of "data ''constraint_hash''"]
  have t: "find_temporary t (data ''constraint_hash'') = None" by simp
  show ?thesis
    by (simp add: blind_sign_no_session [where data = data, OF None]
        blind_sign_no_session [where data = data, OF t] v)
next
  case te: (Some te)
  with public_view_lookups(2) [OF v, of "data ''constraint_hash''"]
  obtain te' where te': "find_temporary t (data ''constraint_hash'') = Some te'"
    by (auto simp: map_option_case split: option.splits)
  show ?thesis
  proof (cases "find_permanent s (data ''constraint_hash'')")
    case None
    with public_view_lookups(1) [OF v, of "data ''constraint_hash''"]
    have t: "find_permanent t (data ''constraint_hash'') = None" by simp
    show ?thesis
      by (simp add: blind_sign_no_key [where data = data, OF te None]
          blind_sign_no_key [where data = data, OF te' t] v)
  next
    case pe: (Some pe)
    with public_view_lookups(1) [OF v, of "data ''constraint_hash''"]
    obtain pe' where pe': "find_permanent t (data ''constraint_hash'') = Some pe'"
      by (auto simp: map_option_case split: option.splits)
    show ?thesis
    proof (cases "verify_message_fits_constraint ce (data ''proof'')
        (data ''blinded_message'') (data ''constraint_hash'')")
      case True
      with public_engine_lookups(5) [OF e]
      have True': "verify_message_fits_constraint ce' (data ''proof'')
        (data ''blinded_message'') (data ''constraint_hash'')" by simp
      show ?thesis
        by (auto simp: blind_sign_signed [where data = data, OF te pe True]
            blind_sign_signed [where data = data, OF te' pe' True'] public_view_updates v)
    next
      case False
      with public_engine_lookups(5) [OF e]
      have False': "\<not> verify_message_fits_constraint ce' (data ''proof'')
        (data ''blinded_message'') (data ''constraint_hash'')" by simp
      show ?thesis
        by (simp add: blind_sign_rejected [where data = data, OF te pe False]
            blind_sign_rejected [where data = data, OF te' pe' False'] public_view_updates v)
    qed
  qed
qed

text \<open>
  C3. For each of the five operations, every state and every request: each field of the
  response is a public artifact (the stored or freshly generated public key, the stored
  or freshly generated public value, the success flag, an error message, or the blinded
  signature that \<^verbatim>\<open>server_sign\<close> returns), so no field is a stored or generated
  \<^verbatim>\<open>private_key\<close> or \<^verbatim>\<open>private_value\<close>. Moreover the response does not depend
  on the secrets: take two servers whose states have the same public view and whose
  crypto libraries have the same public part, so that they differ at most in the private
  keys and private values they store and will generate. They give the same response to
  the same request, except that a successful blind-sign answers in each with the
  signature computed there; and afterwards their states have the same public view again.
\<close>

theorem responses_carry_no_stored_secret:
  "(\<forall>field \<in> set (body (fst (app ce route data s))). public_artifact ce data s field)
   \<and> (public_engine ce = public_engine ce' \<and> public_view s = public_view t \<longrightarrow>
        public_view (snd (app ce route data s)) = public_view (snd (app ce' route data t))
        \<and> (fst (app ce route data s) = fst (app ce' route data t)
           \<or> route = POST_blind_sign
             \<and> (\<exists>sig sig'.
                  fst (app ce route data s) = jsonify [(''blinded_signature'', JValue sig)]
                  \<and> fst (app ce' route data t) = jsonify [(''blinded_signature'', JValue sig')])))"
proof (intro conjI impI)
  show "\<forall>field \<in> set (body (fst (app ce route data s))). public_artifact ce data s field"
    by (rule response_fields_public)
next
  assume "public_engine ce = public_engine ce' \<and> public_view s = public_view t"
  then have e: "public_engine ce = public_engine ce'" and v: "public_view s = public_view t"
    by blast+
  show "public_view (snd (app ce route data s)) = public_view (snd (app ce' route data t))"
    by (cases route)
      (simp_all add: generate_keypair_public [OF e v] create_sign_session_public [OF e v]
        close_sign_session_public [OF v] delete_key_public [OF v] blind_sign_public [OF e v])
next
  assume "public_engine ce = public_engine ce' \<and> public_view s = public_view t"
  then have e: "public_engine ce = public_engine ce'" and v: "public_view s = public_view t"
    by blast+
  show "fst (app ce route data s) = fst (app ce' route data t)
           \<or> route = POST_blind_sign
             \<and> (\<exists>sig sig'.
                  fst (app ce route data s) = jsonify [(''blinded_signature'', JValue sig)]
                  \<and> fst (app ce' route data t) = jsonify [(''blinded_signature'', JValue sig')])"
  proof (cases route)
    case POST_blind_sign
    with blind_sign_public [OF e v, of data] show ?thesis by simp
  qed (simp_all add: generate_keypair_public [OF e v] create_sign_session_public [OF e v]
        close_sign_session_public [OF v] delete_key_public [OF v])
qed

theorem responses_carry_no_stored_secret_witness:
  "public_engine demo_engine = public_engine other_engine
   \<and> public_view empty_server = public_view empty_server
   \<and> fst (app demo_engine POST_generate_keypair demo_request empty_server)
       = \<lparr>body = [(''public_key'', JValue 7)], status = 200\<rparr>
   \<and> fst (app other_engine POST_generate_keypair demo_request empty_server)
       = \<lparr>body = [(''public_key'', JValue 7)], status = 200\<rparr>
   \<and> find_permanent (snd (app demo_engine POST_generate_keypair demo_request empty_server))
        (Some 7) = Some \<lparr>private_key = 6, public_key = 7\<rparr>
   \<and> find_permanent (snd (app other_engine POST_generate_keypair demo_request empty_server))
        (Some 7) = Some \<lparr>private_key = 103, public_key = 7\<rparr>
   \<and> public_artifact demo_engine demo_request empty_server (''public_key'', JValue 7)
   \<and> \<not> public_artifact demo_engine demo_request empty_server (''public_key'', JValue 6)
   \<and> public_view demo_server = public_view other_secrets_server
   \<and> fst (app demo_engine POST_create_sign_session demo_request demo_server)
       = \<lparr>body = [(''public_value'', JValue 21)], status = 200\<rparr>
   \<and> fst (app other_engine POST_create_sign_session demo_request other_secrets_server)
       = \<lparr>body = [(''public_value'', JValue 21)], status = 200\<rparr>"
  using responses_carry_no_stored_secret [of demo_engine POST_generate_keypair demo_request
      empty_server other_engine empty_server]
    responses_carry_no_stored_secret [of demo_engine POST_create_sign_session demo_request
      demo_server other_engine other_secrets_server]
  by (simp add: demo_defs public_engine_def public_view_def public_artifact_def
      generate_keypair_def create_sign_session_def db_defs engine_defs response_defs Let_def)

subsection \<open>Key generation\<close>

lemma generate_keypair_again:
  assumes "data' ''constraint_hash'' = data ''constraint_hash''"
  shows "generate_keypair ce data' (snd (generate_keypair ce data s))
           = generate_keypair ce data s"
proof (cases "find_permanent s (data ''constraint_hash'')")
  case None
  obtain priv pub g where gen: "server_generate_keypair ce (entropy s) = ((priv, pub), g)"
    by (metis prod.exhaust)
  let ?s1 = "store_permanent (data ''constraint_hash'') priv pub
               (logged Call_server_generate_keypair (s\<lparr>entropy := g\<rparr>))"
  have first: "generate_keypair ce data s = (jsonify [(''public_key'', JValue pub)], ?s1)"
    by (rule generate_keypair_fresh [where data = data, OF None gen])
  have "find_permanent ?s1 (data' ''constraint_hash'')
          = Some \<lparr>private_key = priv, public_key = pub\<rparr>"
    by (simp add: assms find_permanent_def store_permanent_def)
  from generate_keypair_existing [where data = data', OF this] first show ?thesis
    by simp
next
  case (Some e)
  then have "find_permanent s (data' ''constraint_hash'') = Some e"
    by (simp add: assms)
  from generate_keypair_existing [where data = data', OF this]
    generate_keypair_existing [where data = data, OF Some]
  show ?thesis by simp
qed

lemma generate_keypair_log:
  "engine_log (snd (generate_keypair ce data s)) =
     (case find_permanent s (data ''constraint_hash'') of
        None \<Rightarrow> engine_log s @ [Call_server_generate_keypair]
      | Some e \<Rightarrow> engine_log s)"
proof (cases "find_permanent s (data ''constraint_hash'')")
  case None
  obtain priv pub g where gen: "server_generate_keypair ce (entropy s) = ((priv, pub), g)"
    by (metis prod.exhaust)
  from generate_keypair_fresh [where data = data, OF None gen] None show ?thesis
    by (simp add: store_permanent_def logged_def)
next
  case (Some e)
  from generate_keypair_existing [where data = data, OF Some] Some show ?thesis
    by simp
qed

text \<open>
  C4. generate-keypair is idempotent. When the constraint hash has a PermanentEntry, the
  handler answers with that entry's public key and returns the state as it was: no
  entry is written and the log of calls to the crypto library does not grow, so the
  generator is not invoked. Hence a second generate-keypair for the same constraint
  hash, right after a first one from any state, gives the same response and leaves the
  state of the first; over the two calls the generator is invoked at most once.
\<close>

theorem generate_keypair_idempotent:
  "(\<forall>permanent_entry. find_permanent s (data ''constraint_hash'') = Some permanent_entry \<longrightarrow>
      generate_keypair ce data s =
        (\<lparr>body = [(''public_key'', JValue (public_key permanent_entry))], status = 200\<rparr>, s))
   \<and> (data' ''constraint_hash'' = data ''constraint_hash'' \<longrightarrow>
        fst (generate_keypair ce data' (snd (generate_keypair ce data s)))
          = fst (generate_keypair ce data s)
        \<and> snd (generate_keypair ce data' (snd (generate_keypair ce data s)))
          = snd (generate_keypair ce data s)
        \<and> count_list (engine_log (snd (generate_keypair ce data'
              (snd (generate_keypair ce data s))))) Call_server_generate_keypair
          \<le> Suc (count_list (engine_log s) Call_server_generate_keypair))"
proof (intro conjI allI impI)
  fix permanent_entry
  assume "find_permanent s (data ''constraint_hash'') = Some permanent_entry"
  from generate_keypair_existing [where data = data, OF this]
  show "generate_keypair ce data s =
        (\<lparr>body = [(''public_key'', JValue (public_key permanent_entry))], status = 200\<rparr>, s)"
    by (simp add: jsonify_def)
next
  assume same: "data' ''constraint_hash'' = data ''constraint_hash''"
  note again = generate_keypair_again [where data = data and data' = data', OF same, of ce s]
  show "fst (generate_keypair ce data' (snd (generate_keypair ce data s)))
          = fst (generate_keypair ce data s)"
    by (simp add: again)
  show "snd (generate_keypair ce data' (snd (generate_keypair ce data s)))
          = snd (generate_keypair ce data s)"
    by (simp add: again)
  show "count_list (engine_log (snd (generate_keypair ce data'
              (snd (generate_keypair ce data s))))) Call_server_generate_keypair
          \<le> Suc (count_list (engine_log s) Call_server_generate_keypair)"
    by (simp add: again generate_keypair_log split: option.splits)
qed

theorem generate_keypair_idempotent_witness:
  "find_permanent demo_server (demo_request ''constraint_hash'')
     = Some \<lparr>private_key = 10, public_key = 11\<rparr>
   \<and> generate_keypair demo_engine demo_request demo_server =
       (\<lparr>body = [(''public_key'', JValue 11)], status = 200\<rparr>, demo_server)
   \<and> second_request ''constraint_hash'' = demo_request ''constraint_hash''
   \<and> fst (generate_keypair demo_engine demo_request empty_server)
       = \<lparr>body = [(''public_key'', JValue 7)], status = 200\<rparr>
   \<and> fst (generate_keypair demo_engine second_request
            (snd (generate_keypair demo_engine demo_request empty_server)))
       = \<lparr>body = [(''public_key'', JValue 7)], status = 200\<rparr>
   \<and> engine_log (snd (generate_keypair demo_engine second_request
            (snd (generate_keypair demo_engine demo_request empty_server))))
       = [Call_server_generate_keypair]"
  using generate_keypair_idempotent [of demo_server demo_request demo_engine second_request]
    generate_keypair_idempotent [of empty_server demo_request demo_engine second_request]
  by (simp add: demo_defs generate_keypair_def db_defs
      engine_defs response_defs Let_def)

subsection \<open>Signing sessions\<close>

lemma create_sign_session_again:
  assumes "find_permanent s (data ''constraint_hash'') = Some permanent_entry"
    and "data' ''constraint_hash'' = data ''constraint_hash''"
  shows "create_sign_session ce data' (snd (create_sign_session ce data s))
           = create_sign_session ce data s"
proof (cases "find_temporary s (data ''constraint_hash'')")
  case None
  obtain priv pub g where gen: "server_generate_session ce (entropy s) = ((priv, pub), g)"
    by (metis prod.exhaust)
  let ?s1 = "store_temporary (data ''constraint_hash'') priv pub
               (logged Call_server_generate_session (s\<lparr>entropy := g\<rparr>))"
  have first: "create_sign_session ce data s = (jsonify [(''public_value'', JValue pub)], ?s1)"
    by (rule create_sign_session_fresh [where data = data, OF assms(1) None gen])
  have p: "find_permanent ?s1 (data' ''constraint_hash'') = Some permanent_entry"
    using assms by (simp add: find_permanent_def store_temporary_def logged_def)
  have "find_temporary ?s1 (data' ''constraint_hash'')
          = Some \<lparr>private_value = priv, public_value = pub\<rparr>"
    by (simp add: assms find_temporary_def store_temporary_def)
  from create_sign_session_existing [where data = data', OF p this] first show ?thesis
    by simp
next
  case (Some te)
  from assms Some have "find_permanent s (data' ''constraint_hash'') = Some permanent_entry"
    and "find_temporary s (data' ''constraint_hash'') = Some te"
    by simp_all
  from create_sign_session_existing [where data = data', OF this]
    create_sign_session_existing [where data = data, OF assms(1) Some]
  show ?thesis by simp
qed

lemma create_sign_session_stored:
  assumes "find_permanent s (data ''constraint_hash'') = Some permanent_entry"
  shows "\<exists>temp_entry.
           find_temporary (snd (create_sign_session ce data s)) (data ''constraint_hash'')
             = Some temp_entry
           \<and> fst (create_sign_session ce data s) =
               \<lparr>body = [(''public_value'', JValue (public_value temp_entry))], status = 200\<rparr>"
proof (cases "find_temporary s (data ''constraint_hash'')")
  case None
  obtain priv pub g where gen: "server_generate_session ce (entropy s) = ((priv, pub), g)"
    by (metis prod.exhaust)
  from create_sign_session_fresh [where data = data, OF assms None gen] show ?thesis
    by (simp add: find_temporary_def store_temporary_def jsonify_def)
next
  case (Some te)
  from create_sign_session_existing [where data = data, OF assms Some] Some show ?thesis
    by (simp add: jsonify_def)
qed

text \<open>
  C5. create-sign-session is idempotent for a constraint hash that has a PermanentEntry.
  When a TemporaryEntry exists, the handler answers with its public value and returns
  the state as it was, generating nothing. A second create-sign-session for the same
  constraint hash, right after a first one, gives the same response and leaves the
  state of the first; after the call the session table holds, for that hash, the one
  entry whose public value was returned.
\<close>

theorem create_sign_session_idempotent:
  assumes "find_permanent s (data ''constraint_hash'') = Some permanent_entry"
    and "data' ''constraint_hash'' = data ''constraint_hash''"
  shows "(\<forall>temp_entry. find_temporary s (data ''constraint_hash'') = Some temp_entry \<longrightarrow>
            create_sign_session ce data s =
              (\<lparr>body = [(''public_value'', JValue (public_value temp_entry))], status = 200\<rparr>, s))
       \<and> fst (create_sign_session ce data' (snd (create_sign_session ce data s)))
           = fst (create_sign_session ce data s)
       \<and> snd (create_sign_session ce data' (snd (create_sign_session ce data s)))
           = snd (create_sign_session ce data s)
       \<and> (\<exists>temp_entry.
             find_temporary (snd (create_sign_session ce data s)) (data ''constraint_hash'')
               = Some temp_entry
             \<and> fst (create_sign_session ce data s) =
                 \<lparr>body = [(''public_value'', JValue (public_value temp_entry))], status = 200\<rparr>)"
proof (intro conjI allI impI)
  fix temp_entry
  assume "find_temporary s (data ''constraint_hash'') = Some temp_entry"
  from create_sign_session_existing [where data = data, OF assms(1) this]
  show "create_sign_session ce data s =
          (\<lparr>body = [(''public_value'', JValue (public_value temp_entry))], status = 200\<rparr>, s)"
    by (simp add: jsonify_def)
next
  note again = create_sign_session_again [where data = data and data' = data', OF assms, of ce]
  show "fst (create_sign_session ce data' (snd (create_sign_session ce data s)))
           = fst (create_sign_session ce data s)"
    by (simp add: again)
  show "snd (create_sign_session ce data' (snd (create_sign_session ce data s)))
           = snd (create_sign_session ce data s)"
    by (simp add: again)
  show "\<exists>temp_entry.
             find_temporary (snd (create_sign_session ce data s)) (data ''constraint_hash'')
               = Some temp_entry
             \<and> fst (create_sign_session ce data s) =
                 \<lparr>body = [(''public_value'', JValue (public_value temp_entry))], status = 200\<rparr>"
    by (rule create_sign_session_stored [where data = data, OF assms(1)])
qed

theorem create_sign_session_idempotent_witness:
  "find_permanent key_only_server (demo_request ''constraint_hash'')
     = Some \<lparr>private_key = 10, public_key = 11\<rparr>
   \<and> second_request ''constraint_hash'' = demo_request ''constraint_hash''
   \<and> fst (create_sign_session demo_engine demo_request key_only_server)
       = \<lparr>body = [(''public_value'', JValue 7)], status = 200\<rparr>
   \<and> fst (create_sign_session demo_engine second_request
            (snd (create_sign_session demo_engine demo_request key_only_server)))
       = \<lparr>body = [(''public_value'', JValue 7)], status = 200\<rparr>
   \<and> find_temporary (snd (create_sign_session demo_engine demo_request key_only_server))
        (Some 7) = Some \<lparr>private_value = 6, public_value = 7\<rparr>"
  using create_sign_session_idempotent [of key_only_server demo_request
      "\<lparr>private_key = 10, public_key = 11\<rparr>" second_request demo_engine]
  by (simp add: demo_defs create_sign_session_def
      db_defs engine_defs response_defs Let_def)

text \<open>
  C6. In every state, whatever was done before for other hashes, create-sign-session on
  a constraint hash with no PermanentEntry answers 404 "Constraint hash not found" and
  returns the state as it was: no TemporaryEntry is created and no generator is called.
\<close>

theorem create_sign_session_unknown_hash:
  assumes "find_permanent s (data ''constraint_hash'') = None"
  shows "create_sign_session ce data s =
           (\<lparr>body = [(''error'', JString ''Constraint hash not found'')], status = 404\<rparr>, s)"
  using assms by (simp add: create_sign_session_def response_defs)

theorem create_sign_session_unknown_hash_witness:
  "find_permanent session_only_server (demo_request ''constraint_hash'') = None
   \<and> create_sign_session demo_engine demo_request session_only_server =
        (\<lparr>body = [(''error'', JString ''Constraint hash not found'')], status = 404\<rparr>,
         session_only_server)"
  using create_sign_session_unknown_hash [of session_only_server demo_request demo_engine]
  by (simp add: demo_defs db_defs)

lemma generate_keypair_temporary:
  "temporary (snd (generate_keypair ce data s)) = temporary s"
proof (cases "find_permanent s (data ''constraint_hash'')")
  case None
  obtain priv pub g where gen: "server_generate_keypair ce (entropy s) = ((priv, pub), g)"
    by (metis prod.exhaust)
  from generate_keypair_fresh [where data = data, OF None gen] show ?thesis
    by (simp add: store_permanent_def logged_def)
next
  case (Some e)
  from generate_keypair_existing [where data = data, OF Some] show ?thesis
    by simp
qed

lemma blind_sign_tables:
  "temporary (snd (blind_sign ce data s)) = temporary s"
  "permanent (snd (blind_sign ce data s)) = permanent s"
  by (simp_all add: blind_sign_def call_verify_def call_sign_def logged_def Let_def
      split: option.splits)

lemma delete_key_temporary:
  "temporary (snd (delete_key ce data s)) = temporary s"
  by (simp add: delete_key_def delete_permanent_def Let_def)

lemma create_sign_session_keeps:
  assumes "find_temporary s k = Some temp_entry"
  shows "find_temporary (snd (create_sign_session ce data s)) k = Some temp_entry"
proof (cases "find_permanent s (data ''constraint_hash'')")
  case None
  from create_sign_session_no_key [where data = data, OF None] assms show ?thesis
    by simp
next
  case pe: (Some pe)
  show ?thesis
  proof (cases "find_temporary s (data ''constraint_hash'')")
    case None
    with assms have "k \<noteq> data ''constraint_hash''" by auto
    obtain priv pub g where gen: "server_generate_session ce (entropy s) = ((priv, pub), g)"
      by (metis prod.exhaust)
    from create_sign_session_fresh [where data = data, OF pe None gen] assms
      \<open>k \<noteq> data ''constraint_hash''\<close>
    show ?thesis
      by (simp add: find_temporary_def store_temporary_def logged_def)
  next
    case (Some te)
    from create_sign_session_existing [where data = data, OF pe Some] assms show ?thesis
      by simp
  qed
qed

text \<open>
  C8. A TemporaryEntry that exists, for any constraint hash, is still there and
  unchanged after every operation other than close-sign-session. A blind-sign, successful
  or not, leaves the whole session table as it was, and so does delete-key, which does
  not remove the session of the key it deletes. So a second blind-sign for the same
  constraint hash, right after a first one, signs with the same private value.
\<close>

theorem session_outlives_sign_and_delete:
  "(route \<noteq> POST_close_sign_session \<longrightarrow> find_temporary s k = Some temp_entry \<longrightarrow>
      find_temporary (snd (app ce route data s)) k = Some temp_entry)
   \<and> temporary (snd (blind_sign ce data s)) = temporary s
   \<and> temporary (snd (delete_key ce data s)) = temporary s
   \<and> (find_permanent s (data ''constraint_hash'') = Some permanent_entry
        \<and> find_temporary s (data ''constraint_hash'') = Some temporary_entry
        \<and> data' ''constraint_hash'' = data ''constraint_hash''
        \<and> verify_message_fits_constraint ce (data' ''proof'') (data' ''blinded_message'')
             (data' ''constraint_hash'') \<longrightarrow>
      fst (blind_sign ce data' (snd (blind_sign ce data s))) =
        \<lparr>body = [(''blinded_signature'',
                  JValue (server_sign ce (private_key permanent_entry)
                    (private_value temporary_entry) (data' ''blinded_message'')))],
         status = 200\<rparr>)"
proof (intro conjI impI)
  assume "route \<noteq> POST_close_sign_session" and "find_temporary s k = Some temp_entry"
  then show "find_temporary (snd (app ce route data s)) k = Some temp_entry"
  proof (cases route)
    case POST_create_sign_session
    with \<open>find_temporary s k = Some temp_entry\<close> show ?thesis
      by (simp add: create_sign_session_keeps)
  qed (simp_all add: find_temporary_def generate_keypair_temporary blind_sign_tables
        delete_key_temporary)
next
  show "temporary (snd (blind_sign ce data s)) = temporary s"
    by (rule blind_sign_tables)
  show "temporary (snd (delete_key ce data s)) = temporary s"
    by (rule delete_key_temporary)
next
  assume a: "find_permanent s (data ''constraint_hash'') = Some permanent_entry
        \<and> find_temporary s (data ''constraint_hash'') = Some temporary_entry
        \<and> data' ''constraint_hash'' = data ''constraint_hash''
        \<and> verify_message_fits_constraint ce (data' ''proof'') (data' ''blinded_message'')
             (data' ''constraint_hash'')"
  let ?s1 = "snd (blind_sign ce data s)"
  from a have te: "find_temporary ?s1 (data' ''constraint_hash'') = Some temporary_entry"
    and pe: "find_permanent ?s1 (data' ''constraint_hash'') = Some permanent_entry"
    by (simp_all add: find_temporary_def find_permanent_def blind_sign_tables)
  from a have "verify_message_fits_constraint ce (data' ''proof'') (data' ''blinded_message'')
             (data' ''constraint_hash'')" by blast
  from blind_sign_signed [where data = data', OF te pe this]
  show "fst (blind_sign ce data' ?s1) =
        \<lparr>body = [(''blinded_signature'',
                  JValue (server_sign ce (private_key permanent_entry)
                    (private_value temporary_entry) (data' ''blinded_message'')))],
         status = 200\<rparr>"
    by (simp add: jsonify_def)
qed

theorem session_outlives_sign_and_delete_witness:
  "find_temporary demo_server (Some 7) = Some \<lparr>private_value = 20, public_value = 21\<rparr>
   \<and> find_temporary (snd (app demo_engine DELETE_delete_key demo_request demo_server)) (Some 7)
       = Some \<lparr>private_value = 20, public_value = 21\<rparr>
   \<and> find_permanent (snd (app demo_engine DELETE_delete_key demo_request demo_server)) (Some 7)
       = None
   \<and> find_permanent demo_server (demo_request ''constraint_hash'')
       = Some \<lparr>private_key = 10, public_key = 11\<rparr>
   \<and> second_request ''constraint_hash'' = demo_request ''constraint_hash''
   \<and> verify_message_fits_constraint demo_engine (second_request ''proof'')
        (second_request ''blinded_message'') (second_request ''constraint_hash'')
   \<and> fst (blind_sign demo_engine demo_request demo_server)
       = \<lparr>body = [(''blinded_signature'', JValue 110)], status = 200\<rparr>
   \<and> fst (blind_sign demo_engine second_request
            (snd (blind_sign demo_engine demo_request demo_server)))
       = \<lparr>body = [(''blinded_signature'', JValue 190)], status = 200\<rparr>"
  using session_outlives_sign_and_delete [of DELETE_delete_key demo_server "Some 7"
      "\<lparr>private_value = 20, public_value = 21\<rparr>" demo_engine demo_request
      "\<lparr>private_key = 10, public_key = 11\<rparr>" "\<lparr>private_value = 20, public_value = 21\<rparr>"
      second_request]
  by (simp add: demo_defs delete_key_def blind_sign_def db_defs engine_defs
      response_defs Let_def)

text \<open>
  C10. close-sign-session answers 200 with \<^verbatim>\<open>success: true\<close> in every state and for
  every request. Afterwards the constraint hash has no TemporaryEntry and nothing else
  has changed; when it had none before, the state is as it was.
\<close>

theorem close_sign_session_always_succeeds:
  "close_sign_session ce data s =
     (\<lparr>body = [(''success'', JBool True)], status = 200\<rparr>,
      s\<lparr>temporary := (temporary s)(data ''constraint_hash'' := None)\<rparr>)
   \<and> find_temporary (snd (close_sign_session ce data s)) (data ''constraint_hash'') = None
   \<and> (find_temporary s (data ''constraint_hash'') = None \<longrightarrow>
        snd (close_sign_session ce data s) = s)"
  by (simp add: close_sign_session_def db_defs response_defs fun_upd_idem)

theorem close_sign_session_always_succeeds_witness:
  "find_temporary key_only_server (demo_request ''constraint_hash'') = None
   \<and> close_sign_session demo_engine demo_request key_only_server =
       (\<lparr>body = [(''success'', JBool True)], status = 200\<rparr>, key_only_server)
   \<and> close_sign_session demo_engine demo_request demo_server =
       (\<lparr>body = [(''success'', JBool True)], status = 200\<rparr>, key_only_server)"
  using close_sign_session_always_succeeds [of demo_engine demo_request key_only_server]
    close_sign_session_always_succeeds [of demo_engine demo_request demo_server]
  by (simp add: demo_defs db_defs)

subsection \<open>Key deletion\<close>

text \<open>
  C9. delete-key on a constraint hash with no PermanentEntry answers 404 "Constraint hash
  not found" and returns the state as it was. On a constraint hash with a PermanentEntry
  it answers 200 with \<^verbatim>\<open>success: true\<close>, and the state differs only in that this
  entry is gone.
\<close>

theorem delete_key_result:
  "(find_permanent s (data ''constraint_hash'') = None \<longrightarrow>
      delete_key ce data s =
        (\<lparr>body = [(''error'', JString ''Constraint hash not found'')], status = 404\<rparr>, s))
   \<and> (find_permanent s (data ''constraint_hash'') \<noteq> None \<longrightarrow>
      delete_key ce data s =
        (\<lparr>body = [(''success'', JBool True)], status = 200\<rparr>,
         s\<lparr>permanent := (permanent s)(data ''constraint_hash'' := None)\<rparr>)
      \<and> find_permanent (snd (delete_key ce data s)) (data ''constraint_hash'') = None)"
  by (auto simp: delete_key_def db_defs response_defs)

theorem delete_key_result_witness:
  "find_permanent session_only_server (demo_request ''constraint_hash'') = None
   \<and> delete_key demo_engine demo_request session_only_server =
        (\<lparr>body = [(''error'', JString ''Constraint hash not found'')], status = 404\<rparr>,
         session_only_server)
   \<and> find_permanent demo_server (demo_request ''constraint_hash'') \<noteq> None
   \<and> delete_key demo_engine demo_request demo_server =
        (\<lparr>body = [(''success'', JBool True)], status = 200\<rparr>, session_only_server)"
  using delete_key_result [of session_only_server demo_request demo_engine]
    delete_key_result [of demo_server demo_request demo_engine]
  by (simp add: demo_defs db_defs)

end
